theory Spec2Isabelle
  imports Complex_Main
begin

section \<open>Number model\<close>

text \<open>
  The program computes with Python floats. Every amount, price and fee is modelled as a
  \<^typ>\<open>real\<close>: the arithmetic of the model is exact, and rounding, overflow and
  infinities are not modelled. The only float value that changes control flow in the code,
  NaN, is modelled where the code can meet it (the cells of the indicator frame, see
  \<open>cell\<close> below).

  The wall clock (\<^verbatim>\<open>datetime.now()\<close>) is an input of each operation, the
  argument \<open>now\<close> in milliseconds; every reading of the clock inside one call gets this
  value. Printing is not modelled.
\<close>

section \<open>config.py\<close>

definition STARTING_BALANCE_USDT :: real where
  "STARTING_BALANCE_USDT = 10000"

definition TRADING_FEE_PERCENT :: real where
  "TRADING_FEE_PERCENT = 1 / 10"

definition RSI_OVERSOLD :: real where
  "RSI_OVERSOLD = 30"

definition RSI_OVERBOUGHT :: real where
  "RSI_OVERBOUGHT = 70"

section \<open>database.py\<close>

text \<open>
  The SQLite file is a record with one field per table. Of the table \<open>ohlcv\<close> only the
  columns that the modelled operations read are kept. A row of \<open>positions\<close> keeps its
  three meaningful columns (\<open>unrealized_pnl\<close> is written as 0 and never read); the table
  is a list in row order, and \<^verbatim>\<open>INSERT OR REPLACE\<close> on the unique column
  \<open>symbol\<close> removes the old row and appends the new one. \<open>trade_seq\<close> is the
  AUTOINCREMENT counter of \<open>trades\<close>.
\<close>

record candle =
  c_symbol :: string
  c_timestamp :: int
  c_close :: real

datatype side = Buy | Sell

record trade =
  tr_id :: nat
  tr_symbol :: string
  tr_side :: side
  tr_amount :: real
  tr_price :: real
  tr_fee :: real
  tr_timestamp :: int
  tr_pnl :: real

record position =
  pos_symbol :: string
  pos_amount :: real
  pos_avg_entry_price :: real

record account_row =
  cash_balance :: real
  total_equity :: real
  last_updated :: int

record database =
  ohlcv :: "candle list"
  trades :: "trade list"
  trade_seq :: nat
  positions :: "position list"
  account :: "account_row option"
  equity_history :: "(int \<times> real) list"

text \<open>\<^verbatim>\<open>SELECT close FROM ohlcv WHERE symbol = ? ORDER BY timestamp DESC LIMIT 1\<close>\<close>

fun latest_candle :: "string \<Rightarrow> candle list \<Rightarrow> candle option" where
  "latest_candle s [] = None"
| "latest_candle s (c # cs) =
     (if c_symbol c = s
      then (case latest_candle s cs of
              None \<Rightarrow> Some c
            | Some d \<Rightarrow> if c_timestamp c < c_timestamp d then Some d else Some c)
      else latest_candle s cs)"

definition get_latest_price :: "string \<Rightarrow> database \<Rightarrow> real option" where
  "get_latest_price s db = map_option c_close (latest_candle s (ohlcv db))"

definition log_trade ::
  "string \<Rightarrow> side \<Rightarrow> real \<Rightarrow> real \<Rightarrow> real \<Rightarrow> real \<Rightarrow> int \<Rightarrow> database \<Rightarrow> nat \<times> database" where
  "log_trade s sd amt pr fe pnl now db =
     (let trade_id = Suc (trade_seq db)
      in (trade_id,
          db\<lparr>trades := trades db @
                 [\<lparr>tr_id = trade_id, tr_symbol = s, tr_side = sd, tr_amount = amt,
                   tr_price = pr, tr_fee = fe, tr_timestamp = now, tr_pnl = pnl\<rparr>],
             trade_seq := trade_id\<rparr>))"

definition database_get_position :: "string \<Rightarrow> database \<Rightarrow> position option" where
  "database_get_position s db = find (\<lambda>p. pos_symbol p = s) (positions db)"

definition database_update_position :: "string \<Rightarrow> real \<Rightarrow> real \<Rightarrow> database \<Rightarrow> database" where
  "database_update_position s amt avg db =
     (if amt \<le> 0
      then db\<lparr>positions := filter (\<lambda>p. pos_symbol p \<noteq> s) (positions db)\<rparr>
      else db\<lparr>positions := filter (\<lambda>p. pos_symbol p \<noteq> s) (positions db) @
                  [\<lparr>pos_symbol = s, pos_amount = amt, pos_avg_entry_price = avg\<rparr>]\<rparr>)"

definition database_get_all_positions :: "database \<Rightarrow> position list" where
  "database_get_all_positions db = filter (\<lambda>p. 0 < pos_amount p) (positions db)"

definition get_account :: "database \<Rightarrow> account_row option" where
  "get_account db = account db"

definition update_account :: "real \<Rightarrow> real \<Rightarrow> int \<Rightarrow> database \<Rightarrow> database" where
  "update_account cash equity now db =
     db\<lparr>account := Some \<lparr>cash_balance = cash, total_equity = equity, last_updated = now\<rparr>\<rparr>"

definition initialize_account :: "real \<Rightarrow> int \<Rightarrow> database \<Rightarrow> database" where
  "initialize_account starting now db =
     (if get_account db = None then update_account starting starting now db else db)"

section \<open>account.py\<close>

text \<open>
  Python's \<^verbatim>\<open>x or d\<close> on an optional number: \<open>d\<close> when \<open>x\<close> is
  \<^verbatim>\<open>None\<close> or zero, else \<open>x\<close>.
\<close>

definition py_or :: "real option \<Rightarrow> real \<Rightarrow> real" where
  "py_or x d = (case x of None \<Rightarrow> d | Some v \<Rightarrow> if v = 0 then d else v)"

record paper_account =
  starting_balance :: real
  fee_percent :: real

definition PaperAccount_init :: "real option \<Rightarrow> int \<Rightarrow> database \<Rightarrow> paper_account \<times> database" where
  "PaperAccount_init starting now db =
     (let self = \<lparr>starting_balance = py_or starting STARTING_BALANCE_USDT,
                   fee_percent = TRADING_FEE_PERCENT / 100\<rparr>
      in (self, initialize_account (starting_balance self) now db))"

definition get_cash_balance :: "database \<Rightarrow> real" where
  "get_cash_balance db = (case get_account db of Some a \<Rightarrow> cash_balance a | None \<Rightarrow> 0)"

definition get_position :: "string \<Rightarrow> database \<Rightarrow> position option" where
  "get_position s db = database_get_position s db"

definition get_all_positions :: "database \<Rightarrow> position list" where
  "get_all_positions db = database_get_all_positions db"

definition calculate_fee :: "paper_account \<Rightarrow> real \<Rightarrow> real" where
  "calculate_fee self amount_usdt = amount_usdt * fee_percent self"

definition can_afford :: "paper_account \<Rightarrow> real \<Rightarrow> database \<Rightarrow> bool" where
  "can_afford self amount_usdt db =
     (let fee = calculate_fee self amount_usdt;
          total_cost = amount_usdt + fee;
          cash = get_cash_balance db
      in total_cost \<le> cash)"

text \<open>
  One turn of the loop of \<^verbatim>\<open>calculate_total_equity\<close>; the test
  \<^verbatim>\<open>if current_price:\<close> fails for a missing price and for the price 0.
\<close>

definition position_value :: "database \<Rightarrow> position \<Rightarrow> real" where
  "position_value db p =
     (case get_latest_price (pos_symbol p) db of
        Some current_price \<Rightarrow>
          if current_price \<noteq> 0 then pos_amount p * current_price
          else pos_amount p * pos_avg_entry_price p
      | None \<Rightarrow> pos_amount p * pos_avg_entry_price p)"

definition calculate_total_equity :: "real option \<Rightarrow> database \<Rightarrow> real" where
  "calculate_total_equity cash_override db =
     (let cash = (case cash_override of None \<Rightarrow> get_cash_balance db | Some c \<Rightarrow> c);
          positions_value = foldl (\<lambda>v p. v + position_value db p) 0 (get_all_positions db)
      in cash + positions_value)"

definition update_cash_balance :: "real \<Rightarrow> int \<Rightarrow> database \<Rightarrow> database" where
  "update_cash_balance new_balance now db =
     (let equity = calculate_total_equity (Some new_balance) db
      in update_account new_balance equity now db)"

definition update_position :: "string \<Rightarrow> real \<Rightarrow> real \<Rightarrow> int \<Rightarrow> database \<Rightarrow> database" where
  "update_position s amt avg now db =
     (let db1 = database_update_position s amt avg db;
          cash = get_cash_balance db1;
          equity = calculate_total_equity (Some cash) db1
      in update_account cash equity now db1)"

section \<open>executor.py\<close>

text \<open>
  A call either returns a result dictionary or raises. The only operation of
  \<^verbatim>\<open>market_buy\<close> and \<^verbatim>\<open>market_sell\<close> that can raise on numbers is the
  float division, which raises on a zero divisor. The error texts of the failure
  dictionaries are modelled by a datatype that carries the numbers they print.
\<close>

datatype py_exception = ZeroDivisionError

datatype trade_error =
    InvalidAmount
  | NoPriceData
  | InsufficientBalance real real
  | NoPosition
  | InsufficientPosition real real

record buy_receipt =
  b_trade_id :: nat
  b_symbol :: string
  b_amount :: real
  b_price :: real
  b_cost :: real
  b_fee :: real
  b_total_cost :: real
  b_timestamp :: int

record sell_receipt =
  s_trade_id :: nat
  s_symbol :: string
  s_amount :: real
  s_price :: real
  s_gross_proceeds :: real
  s_fee :: real
  s_net_proceeds :: real
  s_pnl :: real
  s_timestamp :: int

datatype trade_result =
    Failure trade_error string side
  | BuySuccess buy_receipt
  | SellSuccess sell_receipt

definition market_buy ::
  "paper_account \<Rightarrow> string \<Rightarrow> real \<Rightarrow> int \<Rightarrow> database
     \<Rightarrow> (py_exception + trade_result) \<times> database" where
  "market_buy self s amount_usdt now db =
     (if amount_usdt \<le> 0 then (Inr (Failure InvalidAmount s Buy), db)
      else case get_latest_price s db of
        None \<Rightarrow> (Inr (Failure NoPriceData s Buy), db)
      | Some price \<Rightarrow>
          let fee = calculate_fee self amount_usdt;
              total_cost = amount_usdt + fee
          in if \<not> can_afford self amount_usdt db
             then (Inr (Failure (InsufficientBalance (get_cash_balance db) total_cost) s Buy), db)
             else if price = 0 then (Inl ZeroDivisionError, db)
             else
               let crypto_amount = amount_usdt / price
               in (case (case get_position s db of
                          Some existing_position \<Rightarrow>
                            let old_amount = pos_amount existing_position;
                                old_avg_price = pos_avg_entry_price existing_position;
                                old_cost = old_amount * old_avg_price;
                                new_amount = old_amount + crypto_amount
                            in if new_amount = 0 then Inl ZeroDivisionError
                               else Inr (update_position s new_amount
                                           ((old_cost + amount_usdt) / new_amount) now db)
                        | None \<Rightarrow> Inr (update_position s crypto_amount price now db)) of
                    Inl e \<Rightarrow> (Inl e, db)
                  | Inr db1 \<Rightarrow>
                      let new_cash = get_cash_balance db1 - total_cost;
                          db2 = update_cash_balance new_cash now db1
                      in (case log_trade s Buy crypto_amount price fee 0 now db2 of
                            (trade_id, db3) \<Rightarrow>
                              (Inr (BuySuccess
                                     \<lparr>b_trade_id = trade_id, b_symbol = s,
                                       b_amount = crypto_amount, b_price = price,
                                       b_cost = amount_usdt, b_fee = fee,
                                       b_total_cost = total_cost, b_timestamp = now\<rparr>),
                               db3))))"

definition market_sell ::
  "paper_account \<Rightarrow> string \<Rightarrow> real \<Rightarrow> int \<Rightarrow> database
     \<Rightarrow> (py_exception + trade_result) \<times> database" where
  "market_sell self s amount_crypto now db =
     (if amount_crypto \<le> 0 then (Inr (Failure InvalidAmount s Sell), db)
      else case get_position s db of
        None \<Rightarrow> (Inr (Failure NoPosition s Sell), db)
      | Some pos \<Rightarrow>
          if pos_amount pos < amount_crypto
          then (Inr (Failure (InsufficientPosition (pos_amount pos) amount_crypto) s Sell), db)
          else (case get_latest_price s db of
            None \<Rightarrow> (Inr (Failure NoPriceData s Sell), db)
          | Some price \<Rightarrow>
              let gross_proceeds = amount_crypto * price;
                  fee = calculate_fee self gross_proceeds;
                  net_proceeds = gross_proceeds - fee;
                  entry_cost = amount_crypto * pos_avg_entry_price pos;
                  realized_pnl = net_proceeds - entry_cost;
                  new_amount = pos_amount pos - amount_crypto;
                  db1 = (if new_amount \<le> 1 / 1000000
                         then update_position s 0 0 now db
                         else update_position s new_amount (pos_avg_entry_price pos) now db);
                  new_cash = get_cash_balance db1 + net_proceeds;
                  db2 = update_cash_balance new_cash now db1
              in case log_trade s Sell amount_crypto price fee realized_pnl now db2 of
                   (trade_id, db3) \<Rightarrow>
                     (Inr (SellSuccess
                            \<lparr>s_trade_id = trade_id, s_symbol = s, s_amount = amount_crypto,
                              s_price = price, s_gross_proceeds = gross_proceeds, s_fee = fee,
                              s_net_proceeds = net_proceeds, s_pnl = realized_pnl,
                              s_timestamp = now\<rparr>),
                      db3)))"

definition sell_all ::
  "paper_account \<Rightarrow> string \<Rightarrow> int \<Rightarrow> database \<Rightarrow> (py_exception + trade_result) \<times> database" where
  "sell_all self s now db =
     (case get_position s db of
        None \<Rightarrow> (Inr (Failure NoPosition s Sell), db)
      | Some pos \<Rightarrow> market_sell self s (pos_amount pos) now db)"

text \<open>A request is rejected when the call returns a failure dictionary.\<close>

fun rejected :: "py_exception + trade_result \<Rightarrow> bool" where
  "rejected (Inr (Failure e s sd)) = True"
| "rejected r = False"

section \<open>strategies/base_strategy.py and strategies/rsi_ema_strategy.py\<close>

text \<open>
  A cell of the indicator frame is a float that may be NaN: \<open>None\<close> is NaN. A
  comparison with NaN is false. The frame is its list of column names and its rows in
  order; a row gives the cell of each column of the frame (the value at a name that is
  not a column is never read: \<open>analyze\<close> returns before).
\<close>

type_synonym cell = "real option"

record dataframe =
  df_columns :: "string list"
  df_rows :: "(string \<Rightarrow> cell) list"

definition cell_gt :: "cell \<Rightarrow> cell \<Rightarrow> bool" where
  "cell_gt a b = (case a of None \<Rightarrow> False
                  | Some x \<Rightarrow> (case b of None \<Rightarrow> False | Some y \<Rightarrow> y < x))"

datatype signal = BUY | SELL | HOLD

datatype crossover = Bullish | Bearish

text \<open>The texts of \<open>reason\<close>, with the values that the f-strings print.\<close>

datatype reason =
    Insufficient_data
  | Missing_indicators "string list"
  | Indicators_not_available
  | RSI_oversold_EMA_bullish real
  | RSI_overbought_EMA_bearish real
  | EMA_bearish_neutral_RSI real
  | Holding_position crossover real
  | No_position crossover real

record strategy_result =
  signal :: signal
  confidence :: real
  reason :: reason
  indicators :: "(string \<times> cell) list"

record rsi_ema_strategy =
  rsi_oversold :: real
  rsi_overbought :: real
  last_crossover :: "crossover option"

definition RsiEmaStrategy_init :: "real option \<Rightarrow> real option \<Rightarrow> rsi_ema_strategy" where
  "RsiEmaStrategy_init oversold overbought =
     \<lparr>rsi_oversold = py_or oversold RSI_OVERSOLD,
      rsi_overbought = py_or overbought RSI_OVERBOUGHT,
      last_crossover = None\<rparr>"

definition required :: "string list" where
  "required = [''close'', ''rsi'', ''ema_fast'', ''ema_slow'']"

text \<open>
  \<open>analyze\<close> is modelled in two parts: the checks of the frame (the source function up
  to the test for NaN), and \<open>analyze_values\<close>, the rest of the source function, on the
  values read from the latest two rows. After the checks the RSI and the two averages
  of the latest row are numbers; the averages of the previous row and the close price
  are cells.
\<close>

definition analyze_values ::
  "rsi_ema_strategy \<Rightarrow> position option \<Rightarrow> real \<Rightarrow> real \<Rightarrow> real \<Rightarrow> cell \<Rightarrow> cell \<Rightarrow> cell
     \<Rightarrow> strategy_result \<times> rsi_ema_strategy" where
  "analyze_values self pos rsi ema_fast ema_slow prev_ema_fast prev_ema_slow close_price =
     (let inds = [(''rsi'', Some rsi), (''ema_fast'', Some ema_fast),
                  (''ema_slow'', Some ema_slow), (''close'', close_price)];
          current_above = (ema_slow < ema_fast);
          prev_above = cell_gt prev_ema_fast prev_ema_slow;
          bullish_crossover = (\<not> prev_above \<and> current_above);
          bearish_crossover = (prev_above \<and> \<not> current_above);
          self1 = (if bullish_crossover then self\<lparr>last_crossover := Some Bullish\<rparr>
                   else if bearish_crossover then self\<lparr>last_crossover := Some Bearish\<rparr>
                   else self);
          is_oversold = (rsi < rsi_oversold self1);
          ema_bullish = (current_above \<or> last_crossover self1 = Some Bullish);
          is_overbought = (rsi_overbought self1 < rsi);
          ema_bearish = (\<not> current_above \<or> last_crossover self1 = Some Bearish)
      in if is_oversold \<and> ema_bullish \<and> pos = None
         then (\<lparr>signal = BUY,
                 confidence = min 100 ((rsi_oversold self1 - rsi) * 3 + 50),
                 reason = RSI_oversold_EMA_bullish rsi, indicators = inds\<rparr>, self1)
         else if is_overbought \<and> ema_bearish \<and> pos \<noteq> None
         then (\<lparr>signal = SELL,
                 confidence = min 100 ((rsi - rsi_overbought self1) * 3 + 50),
                 reason = RSI_overbought_EMA_bearish rsi, indicators = inds\<rparr>, self1)
         else if pos \<noteq> None \<and> bearish_crossover \<and> 50 < rsi
         then (\<lparr>signal = SELL, confidence = 60,
                 reason = EMA_bearish_neutral_RSI rsi, indicators = inds\<rparr>, self1)
         else
           let trend = (if current_above then Bullish else Bearish)
           in (\<lparr>signal = HOLD, confidence = 50,
                 reason = (if pos \<noteq> None then Holding_position trend rsi
                           else No_position trend rsi),
                 indicators = inds\<rparr>, self1))"

definition analyze ::
  "rsi_ema_strategy \<Rightarrow> dataframe \<Rightarrow> position option \<Rightarrow> strategy_result \<times> rsi_ema_strategy" where
  "analyze self df pos =
     (if length (df_rows df) < 3
      then (\<lparr>signal = HOLD, confidence = 0, reason = Insufficient_data, indicators = []\<rparr>, self)
      else
        let missing = filter (\<lambda>col. col \<notin> set (df_columns df)) required
        in if missing \<noteq> []
           then (\<lparr>signal = HOLD, confidence = 0, reason = Missing_indicators missing,
                   indicators = []\<rparr>, self)
           else
             let current = last (df_rows df);
                 previous = df_rows df ! (length (df_rows df) - 2);
                 prev_ema_fast = previous ''ema_fast'';
                 prev_ema_slow = previous ''ema_slow'';
                 close_price = current ''close''
             in (case (current ''rsi'', current ''ema_fast'', current ''ema_slow'') of
                   (Some rsi, Some ema_fast, Some ema_slow) \<Rightarrow>
                     analyze_values self pos rsi ema_fast ema_slow
                       prev_ema_fast prev_ema_slow close_price
                 | _ \<Rightarrow>
                     (\<lparr>signal = HOLD, confidence = 0, reason = Indicators_not_available,
                       indicators = []\<rparr>, self)))"

definition reset :: "rsi_ema_strategy \<Rightarrow> rsi_ema_strategy" where
  "reset self = self\<lparr>last_crossover := None\<rparr>"

section \<open>Sequences of buys\<close>

text \<open>
  A run of buys of one symbol. Between two buys the market tracker may rewrite the
  candle table, so each step carries the candle table in force when the buy is made,
  the quote amount and the clock. The run stops with \<open>None\<close> at the first buy that
  does not succeed.
\<close>

type_synonym buy_step = "candle list \<times> real \<times> int"

fun buy_all :: "paper_account \<Rightarrow> string \<Rightarrow> buy_step list \<Rightarrow> database \<Rightarrow> database option" where
  "buy_all self s [] db = Some db"
| "buy_all self s (st # steps) db =
     (let r = market_buy self s (fst (snd st)) (snd (snd st)) (db\<lparr>ohlcv := fst st\<rparr>)
      in case fst r of
           Inr (BuySuccess receipt) \<Rightarrow> buy_all self s steps (snd r)
         | _ \<Rightarrow> None)"

text \<open>
  The quantities of the specification: the price of a step, the quote amount spent by
  a run, the base amount it acquires, and the amount and cost of the position held
  before the run (both 0 without a position).
\<close>

definition step_price :: "string \<Rightarrow> buy_step \<Rightarrow> real" where
  "step_price s st = (case latest_candle s (fst st) of Some c \<Rightarrow> c_close c | None \<Rightarrow> 0)"

definition spent :: "buy_step list \<Rightarrow> real" where
  "spent steps = sum_list (map (\<lambda>st. fst (snd st)) steps)"

definition acquired :: "string \<Rightarrow> buy_step list \<Rightarrow> real" where
  "acquired s steps = sum_list (map (\<lambda>st. fst (snd st) / step_price s st) steps)"

text \<open>
  The average of the specification's words, "the quote-amount-weighted average of the
  entry prices": each entry price weighted by the quote amount of its buy.
\<close>

definition quote_weighted_average :: "string \<Rightarrow> buy_step list \<Rightarrow> real" where
  "quote_weighted_average s steps =
     sum_list (map (\<lambda>st. fst (snd st) * step_price s st) steps) / spent steps"

definition prices_positive :: "string \<Rightarrow> buy_step list \<Rightarrow> bool" where
  "prices_positive s steps = list_all (\<lambda>st. 0 < step_price s st) steps"

definition held_amount :: "string \<Rightarrow> database \<Rightarrow> real" where
  "held_amount s db = (case get_position s db of None \<Rightarrow> 0 | Some pos \<Rightarrow> pos_amount pos)"

definition held_cost :: "string \<Rightarrow> database \<Rightarrow> real" where
  "held_cost s db =
     (case get_position s db of
        None \<Rightarrow> 0
      | Some pos \<Rightarrow> pos_amount pos * pos_avg_entry_price pos)"

definition held_positive :: "string \<Rightarrow> database \<Rightarrow> bool" where
  "held_positive s db =
     (case get_position s db of None \<Rightarrow> True | Some pos \<Rightarrow> 0 < pos_amount pos)"

section \<open>A concrete ledger\<close>

text \<open>
  The scenario of the specification: a new account with the configured starting balance
  of 10,000 and fee of 0.1 percent, and one candle of BTC/USD closing at 50,000.
\<close>

definition empty_database :: database where
  "empty_database =
     \<lparr>ohlcv = [], trades = [], trade_seq = 0, positions = [], account = None,
      equity_history = []\<rparr>"

definition market_database :: database where
  "market_database =
     empty_database\<lparr>ohlcv := [\<lparr>c_symbol = ''BTC/USD'', c_timestamp = 1, c_close = 50000\<rparr>]\<rparr>"

definition scenario_account :: paper_account where
  "scenario_account = fst (PaperAccount_init None 0 market_database)"

definition scenario_db :: database where
  "scenario_db = snd (PaperAccount_init None 0 market_database)"

definition holding_db :: database where
  "holding_db = snd (market_buy scenario_account ''BTC/USD'' 1000 1 scenario_db)"

text \<open>
  Two runs that spend 2,000 on BTC/USD: 1,000 at 50,000 and then 1,000 at 40,000; and
  the same with the first buy split into 400 and 600.
\<close>

definition candles_50000 :: "candle list" where
  "candles_50000 = [\<lparr>c_symbol = ''BTC/USD'', c_timestamp = 1, c_close = 50000\<rparr>]"

definition candles_40000 :: "candle list" where
  "candles_40000 =
     [\<lparr>c_symbol = ''BTC/USD'', c_timestamp = 1, c_close = 50000\<rparr>,
      \<lparr>c_symbol = ''BTC/USD'', c_timestamp = 2, c_close = 40000\<rparr>]"

definition two_buys :: "buy_step list" where
  "two_buys = [(candles_50000, 1000, 1), (candles_40000, 1000, 2)]"

definition three_buys :: "buy_step list" where
  "three_buys = [(candles_50000, 400, 1), (candles_50000, 600, 2), (candles_40000, 1000, 3)]"

section \<open>Concrete indicator frames\<close>

text \<open>
  A row with the four cells that \<open>analyze\<close> reads. In \<open>tie_frame\<close> the two averages
  are equal in the previous row and the fast one is below the slow one in the latest row.
  In \<open>warmup_frame\<close> the latest row is the first one with an RSI value, as at the end of
  the warm-up of the RSI smoothing.
\<close>

definition indicator_row :: "cell \<Rightarrow> cell \<Rightarrow> cell \<Rightarrow> cell \<Rightarrow> string \<Rightarrow> cell" where
  "indicator_row close_price rsi ema_fast ema_slow col =
     (if col = ''close'' then close_price
      else if col = ''rsi'' then rsi
      else if col = ''ema_fast'' then ema_fast
      else if col = ''ema_slow'' then ema_slow
      else None)"

definition tie_frame :: dataframe where
  "tie_frame =
     \<lparr>df_columns = [''close'', ''rsi'', ''ema_fast'', ''ema_slow''],
      df_rows = [indicator_row (Some 100) (Some 60) (Some 101) (Some 100),
                 indicator_row (Some 100) (Some 60) (Some 100) (Some 100),
                 indicator_row (Some 100) (Some 60) (Some 99) (Some 100)]\<rparr>"

definition warmup_frame :: dataframe where
  "warmup_frame =
     \<lparr>df_columns = [''close'', ''rsi'', ''ema_fast'', ''ema_slow''],
      df_rows = [indicator_row (Some 100) None (Some 100) (Some 100),
                 indicator_row (Some 101) None (Some 101) (Some 100),
                 indicator_row (Some 102) (Some 55) (Some 102) (Some 101)]\<rparr>"

definition crossing_frame :: dataframe where
  "crossing_frame =
     \<lparr>df_columns = [''close'', ''rsi'', ''ema_fast'', ''ema_slow''],
      df_rows = [indicator_row (Some 100) (Some 60) (Some 102) (Some 100),
                 indicator_row (Some 100) (Some 60) (Some 101) (Some 100),
                 indicator_row (Some 100) (Some 60) (Some 99) (Some 100)]\<rparr>"

definition held_position :: position where
  "held_position = \<lparr>pos_symbol = ''BTC/USD'', pos_amount = 1 / 50, pos_avg_entry_price = 50000\<rparr>"

section \<open>The ledger: reading and writing\<close>

lemma get_cash_balance_update_account [simp]:
  "get_cash_balance (update_account c e now db) = c"
  by (simp add: get_cash_balance_def get_account_def update_account_def)

lemma can_afford_eq:
  "can_afford self x db \<longleftrightarrow> x * (1 + fee_percent self) \<le> get_cash_balance db"
  by (simp add: can_afford_def calculate_fee_def algebra_simps)

lemma get_position_update_account [simp]:
  "get_position s (update_account c e now db) = get_position s db"
  by (simp add: get_position_def database_get_position_def update_account_def)

lemma get_latest_price_update_account [simp]:
  "get_latest_price s (update_account c e now db) = get_latest_price s db"
  by (simp add: get_latest_price_def update_account_def)

lemma get_cash_balance_update_cash_balance [simp]:
  "get_cash_balance (update_cash_balance c now db) = c"
  by (simp add: update_cash_balance_def Let_def)

lemma get_position_update_cash_balance [simp]:
  "get_position s (update_cash_balance c now db) = get_position s db"
  by (simp add: update_cash_balance_def Let_def)

lemma get_cash_balance_database_update_position [simp]:
  "get_cash_balance (database_update_position s a p db) = get_cash_balance db"
  by (simp add: get_cash_balance_def get_account_def database_update_position_def)

lemma get_cash_balance_update_position [simp]:
  "get_cash_balance (update_position s a p now db) = get_cash_balance db"
  by (simp add: update_position_def Let_def)

lemma find_filter_other:
  "find (\<lambda>p. pos_symbol p = s) (filter (\<lambda>p. pos_symbol p \<noteq> s) ps) = None"
  by (induction ps) auto

lemma find_filter_neq:
  "s' \<noteq> s \<Longrightarrow>
   find (\<lambda>p. pos_symbol p = s') (filter (\<lambda>p. pos_symbol p \<noteq> s) ps)
     = find (\<lambda>p. pos_symbol p = s') ps"
  by (induction ps) auto

lemma find_append:
  "find P (xs @ ys) = (case find P xs of None \<Rightarrow> find P ys | Some x \<Rightarrow> Some x)"
  by (induction xs) auto

lemma get_position_database_update_position_same:
  "get_position s (database_update_position s a p db) =
     (if a \<le> 0 then None
      else Some \<lparr>pos_symbol = s, pos_amount = a, pos_avg_entry_price = p\<rparr>)"
  by (simp add: get_position_def database_get_position_def database_update_position_def
        find_append find_filter_other)

lemma get_position_database_update_position_other:
  "s' \<noteq> s \<Longrightarrow> get_position s' (database_update_position s a p db) = get_position s' db"
  by (auto simp: get_position_def database_get_position_def database_update_position_def
        find_append find_filter_neq split: option.splits)

lemma get_position_update_position_same [simp]:
  "get_position s (update_position s a p now db) =
     (if a \<le> 0 then None
      else Some \<lparr>pos_symbol = s, pos_amount = a, pos_avg_entry_price = p\<rparr>)"
  by (simp add: update_position_def Let_def get_position_database_update_position_same)

lemma get_position_update_position_other:
  "s' \<noteq> s \<Longrightarrow> get_position s' (update_position s a p now db) = get_position s' db"
  by (simp add: update_position_def Let_def get_position_database_update_position_other)

lemma get_position_log_trade [simp]:
  "get_position s (snd (log_trade s' sd a p f pnl now db)) = get_position s db"
  by (simp add: log_trade_def Let_def get_position_def database_get_position_def)

lemma get_cash_balance_log_trade [simp]:
  "get_cash_balance (snd (log_trade s' sd a p f pnl now db)) = get_cash_balance db"
  by (simp add: log_trade_def Let_def get_cash_balance_def get_account_def)

lemma fst_log_trade [simp]:
  "fst (log_trade s' sd a p f pnl now db) = Suc (trade_seq db)"
  by (simp add: log_trade_def Let_def)

lemma get_position_symbol:
  "get_position s db = Some pos \<Longrightarrow> pos_symbol pos = s"
  by (auto simp: get_position_def database_get_position_def find_Some_iff)

lemma trade_seq_update_account [simp]:
  "trade_seq (update_account c e now db) = trade_seq db"
  by (simp add: update_account_def)

lemma trade_seq_update_cash_balance [simp]:
  "trade_seq (update_cash_balance c now db) = trade_seq db"
  by (simp add: update_cash_balance_def Let_def)

lemma trade_seq_update_position [simp]:
  "trade_seq (update_position s a p now db) = trade_seq db"
  by (simp add: update_position_def Let_def database_update_position_def)

lemma trade_seq_log_trade [simp]:
  "trade_seq (snd (log_trade s sd a p f pnl now db)) = Suc (trade_seq db)"
  by (simp add: log_trade_def Let_def)

lemma ohlcv_update_position [simp]:
  "ohlcv (update_position s a p now db) = ohlcv db"
  by (simp add: update_position_def Let_def database_update_position_def update_account_def)

lemma ohlcv_update_cash_balance [simp]:
  "ohlcv (update_cash_balance c now db) = ohlcv db"
  by (simp add: update_cash_balance_def Let_def update_account_def)

lemma ohlcv_log_trade [simp]:
  "ohlcv (snd (log_trade s sd a p f pnl now db)) = ohlcv db"
  by (simp add: log_trade_def Let_def)

lemma positions_update_account [simp]:
  "positions (update_account c e now db) = positions db"
  by (simp add: update_account_def)

lemma positions_update_position:
  "positions (update_position s a p now db) = positions (database_update_position s a p db)"
  by (simp add: update_position_def Let_def)

lemma get_position_ohlcv_update [simp]:
  "get_position s (db\<lparr>ohlcv := cs\<rparr>) = get_position s db"
  by (simp add: get_position_def database_get_position_def)

lemma get_cash_balance_ohlcv_update [simp]:
  "get_cash_balance (db\<lparr>ohlcv := cs\<rparr>) = get_cash_balance db"
  by (simp add: get_cash_balance_def get_account_def)

lemma get_latest_price_ohlcv_update [simp]:
  "get_latest_price s (db\<lparr>ohlcv := cs\<rparr>) = map_option c_close (latest_candle s cs)"
  by (simp add: get_latest_price_def)

lemma can_afford_ohlcv_update [simp]:
  "can_afford self q (db\<lparr>ohlcv := cs\<rparr>) = can_afford self q db"
  by (simp add: can_afford_eq)

lemmas ledger_defs =
  market_buy_def market_sell_def Let_def can_afford_def calculate_fee_def get_cash_balance_def
  get_account_def get_position_def database_get_position_def update_position_def
  database_update_position_def update_cash_balance_def calculate_total_equity_def
  position_value_def get_all_positions_def database_get_all_positions_def update_account_def
  log_trade_def get_latest_price_def

section \<open>One buy\<close>

lemma market_buy_new:
  assumes "0 < q" and "get_latest_price s db = Some p" and "0 < p"
    and "can_afford self q db" and "get_position s db = None"
  shows "fst (market_buy self s q now db) =
           Inr (BuySuccess \<lparr>b_trade_id = Suc (trade_seq db), b_symbol = s, b_amount = q / p,
                  b_price = p, b_cost = q, b_fee = q * fee_percent self,
                  b_total_cost = q + q * fee_percent self, b_timestamp = now\<rparr>)"
    and "get_cash_balance (snd (market_buy self s q now db)) =
           get_cash_balance db - (q + q * fee_percent self)"
    and "get_position s (snd (market_buy self s q now db)) =
           Some \<lparr>pos_symbol = s, pos_amount = q / p, pos_avg_entry_price = p\<rparr>"
  using assms divide_pos_pos [of q p]
  by (simp_all add: market_buy_def Let_def calculate_fee_def case_prod_unfold not_le)

lemma market_buy_existing:
  assumes "0 < q" and "get_latest_price s db = Some p" and "0 < p"
    and "can_afford self q db" and "get_position s db = Some pos" and "0 < pos_amount pos"
  shows "fst (market_buy self s q now db) =
           Inr (BuySuccess \<lparr>b_trade_id = Suc (trade_seq db), b_symbol = s, b_amount = q / p,
                  b_price = p, b_cost = q, b_fee = q * fee_percent self,
                  b_total_cost = q + q * fee_percent self, b_timestamp = now\<rparr>)"
    and "get_cash_balance (snd (market_buy self s q now db)) =
           get_cash_balance db - (q + q * fee_percent self)"
    and "get_position s (snd (market_buy self s q now db)) =
           Some \<lparr>pos_symbol = s, pos_amount = pos_amount pos + q / p,
                  pos_avg_entry_price =
                    (pos_amount pos * pos_avg_entry_price pos + q) / (pos_amount pos + q / p)\<rparr>"
proof -
  have "0 < pos_amount pos + q / p"
    using assms by (simp add: add_pos_pos)
  then show "fst (market_buy self s q now db) =
           Inr (BuySuccess \<lparr>b_trade_id = Suc (trade_seq db), b_symbol = s, b_amount = q / p,
                  b_price = p, b_cost = q, b_fee = q * fee_percent self,
                  b_total_cost = q + q * fee_percent self, b_timestamp = now\<rparr>)"
    and "get_cash_balance (snd (market_buy self s q now db)) =
           get_cash_balance db - (q + q * fee_percent self)"
    and "get_position s (snd (market_buy self s q now db)) =
           Some \<lparr>pos_symbol = s, pos_amount = pos_amount pos + q / p,
                  pos_avg_entry_price =
                    (pos_amount pos * pos_avg_entry_price pos + q) / (pos_amount pos + q / p)\<rparr>"
    using assms
    by (simp_all add: market_buy_def Let_def calculate_fee_def case_prod_unfold)
qed

lemma ohlcv_market_buy [simp]:
  "ohlcv (snd (market_buy self s q now db)) = ohlcv db"
  by (simp add: market_buy_def Let_def case_prod_unfold split: option.splits sum.splits)

lemma get_latest_price_market_buy [simp]:
  "get_latest_price s' (snd (market_buy self s q now db)) = get_latest_price s' db"
  by (simp add: get_latest_price_def)

lemma trade_seq_market_buy:
  "fst (market_buy self s q now db) = Inr (BuySuccess r)
   \<Longrightarrow> trade_seq (snd (market_buy self s q now db)) = Suc (trade_seq db)"
  by (auto simp: market_buy_def Let_def case_prod_unfold
           split: option.splits sum.splits if_splits)

lemma market_buy_success_cond:
  assumes "fst (market_buy self s q now db) = Inr (BuySuccess r)"
  shows "0 < q" and "can_afford self q db" and "\<exists>p. get_latest_price s db = Some p"
  using assms
  by (auto simp: market_buy_def Let_def case_prod_unfold split: option.splits if_splits)

section \<open>Facts of the concrete ledger\<close>

lemma scenario_account_simps [simp]:
  "fee_percent scenario_account = 1 / 1000" "starting_balance scenario_account = 10000"
  by (simp_all add: scenario_account_def PaperAccount_init_def Let_def py_or_def
        STARTING_BALANCE_USDT_def TRADING_FEE_PERCENT_def)

lemma scenario_db_eq:
  "scenario_db =
     \<lparr>ohlcv = [\<lparr>c_symbol = ''BTC/USD'', c_timestamp = 1, c_close = 50000\<rparr>],
      trades = [], trade_seq = 0, positions = [],
      account = Some \<lparr>cash_balance = 10000, total_equity = 10000, last_updated = 0\<rparr>,
      equity_history = []\<rparr>"
  by (simp add: scenario_db_def PaperAccount_init_def Let_def py_or_def
        STARTING_BALANCE_USDT_def initialize_account_def get_account_def update_account_def
        market_database_def empty_database_def)

lemma scenario_db_simps [simp]:
  "get_cash_balance scenario_db = 10000"
  "get_latest_price ''BTC/USD'' scenario_db = Some 50000"
  "get_latest_price ''ETH/USD'' scenario_db = None"
  "get_position s scenario_db = None"
  by (simp_all add: scenario_db_eq get_cash_balance_def get_account_def get_latest_price_def
        get_position_def database_get_position_def)

lemma can_afford_scenario [simp]: "can_afford scenario_account 1000 scenario_db"
  by (simp add: can_afford_eq)

lemma trade_seq_scenario_db [simp]: "trade_seq scenario_db = 0"
  by (simp add: scenario_db_eq)

lemma holding_db_simps [simp]:
  "get_position ''BTC/USD'' holding_db =
     Some \<lparr>pos_symbol = ''BTC/USD'', pos_amount = 1 / 50, pos_avg_entry_price = 50000\<rparr>"
  "get_cash_balance holding_db = 8999"
  "get_latest_price ''BTC/USD'' holding_db = Some 50000"
  using market_buy_new [of 1000 "''BTC/USD''" scenario_db 50000 scenario_account 1]
  by (simp_all add: holding_db_def)

lemma trade_seq_holding_db [simp]: "trade_seq holding_db = 1"
  using market_buy_new(1) [of 1000 "''BTC/USD''" scenario_db 50000 scenario_account 1]
  by (simp add: holding_db_def trade_seq_market_buy)

lemma positions_holding_db:
  "positions holding_db =
     [\<lparr>pos_symbol = ''BTC/USD'', pos_amount = 1 / 50, pos_avg_entry_price = 50000\<rparr>]"
  by (simp add: holding_db_def ledger_defs scenario_db_eq)

section \<open>Affordability\<close>

text \<open>
  C5: \<open>can_afford\<close> holds exactly when the cash balance is at least the trade value
  times one plus the fee rate; equality at the boundary counts as affordable.
\<close>

theorem can_afford_iff:
  "can_afford self trade_value db
     \<longleftrightarrow> trade_value * (1 + fee_percent self) \<le> get_cash_balance db"
  by (rule can_afford_eq)

theorem can_afford_iff_witness:
  "can_afford scenario_account (10000000 / 1001) scenario_db
   \<and> \<not> can_afford scenario_account (10000001 / 1001) scenario_db"
  using can_afford_iff [of scenario_account "10000000 / 1001" scenario_db]
        can_afford_iff [of scenario_account "10000001 / 1001" scenario_db]
  by simp

section \<open>Rejected requests\<close>

lemma market_buy_rejected_unchanged:
  "rejected (fst (market_buy self s q now db)) \<Longrightarrow> snd (market_buy self s q now db) = db"
  by (auto simp: market_buy_def Let_def case_prod_unfold
           split: option.splits if_splits sum.splits)

lemma market_sell_rejected_unchanged:
  "rejected (fst (market_sell self s a now db)) \<Longrightarrow> snd (market_sell self s a now db) = db"
  by (auto simp: market_sell_def Let_def case_prod_unfold split: option.splits if_splits)

lemma market_buy_rejects:
  "q \<le> 0 \<or> get_latest_price s db = None \<or> \<not> can_afford self q db
   \<Longrightarrow> rejected (fst (market_buy self s q now db))"
  by (auto simp: market_buy_def Let_def split: option.splits)

lemma market_sell_rejects:
  "a \<le> 0 \<or> get_position s db = None
     \<or> (\<exists>p. get_position s db = Some p \<and> pos_amount p < a)
     \<or> get_latest_price s db = None
   \<Longrightarrow> rejected (fst (market_sell self s a now db))"
  by (auto simp: market_sell_def Let_def split: option.splits)

text \<open>
  C1: a buy is rejected when the amount is not positive, the price is missing or the
  balance is insufficient; a sell is rejected when the amount is not positive, there is
  no position, the position is too small or the price is missing; and whenever
  \<open>market_buy\<close> or \<open>market_sell\<close> returns a failure, the database after the call is
  the database before it: cash balance, total equity, positions and trade log included.
\<close>

theorem rejected_requests_leave_ledger_unchanged:
  "(q \<le> 0 \<or> get_latest_price s db = None \<or> \<not> can_afford self q db
      \<longrightarrow> rejected (fst (market_buy self s q now db)))
   \<and> (a \<le> 0 \<or> get_position s db = None
        \<or> (\<exists>p. get_position s db = Some p \<and> pos_amount p < a)
        \<or> get_latest_price s db = None
      \<longrightarrow> rejected (fst (market_sell self s a now db)))
   \<and> (rejected (fst (market_buy self s q now db))
      \<longrightarrow> snd (market_buy self s q now db) = db)
   \<and> (rejected (fst (market_sell self s a now db))
      \<longrightarrow> snd (market_sell self s a now db) = db)"
  using market_buy_rejects [of q s db self now] market_sell_rejects [of a s db self now]
    market_buy_rejected_unchanged [of self s q now db]
    market_sell_rejected_unchanged [of self s a now db]
  by blast

theorem rejected_requests_witness:
  "rejected (fst (market_buy scenario_account ''BTC/USD'' 20000 7 scenario_db))
   \<and> snd (market_buy scenario_account ''BTC/USD'' 20000 7 scenario_db) = scenario_db
   \<and> rejected (fst (market_sell scenario_account ''BTC/USD'' (1 / 10) 7 holding_db))
   \<and> snd (market_sell scenario_account ''BTC/USD'' (1 / 10) 7 holding_db) = holding_db"
  using rejected_requests_leave_ledger_unchanged
          [where q = 20000 and s = "''BTC/USD''" and db = scenario_db
             and self = scenario_account and a = "1 / 10" and now = 7]
        rejected_requests_leave_ledger_unchanged
          [where q = 20000 and s = "''BTC/USD''" and db = holding_db
             and self = scenario_account and a = "1 / 10" and now = 7]
  by (simp add: can_afford_eq)

section \<open>Selling\<close>

text \<open>
  C3: a sell of \<open>a\<close> units that passes the four checks succeeds at the latest price
  \<open>p\<close> with gross proceeds \<open>a * p\<close>, fee \<open>gross * fee_percent\<close>, net proceeds
  \<open>gross - fee\<close> and realized PnL \<open>net - a * avg_entry_price\<close>; the net proceeds are
  added to the cash balance; the position is removed when the remainder is at most
  \<open>0.000001\<close>, and otherwise keeps its average entry price with the reduced amount.
\<close>

theorem market_sell_success:
  assumes "0 < a"
    and "get_position s db = Some pos"
    and "a \<le> pos_amount pos"
    and "get_latest_price s db = Some p"
  shows "
     fst (market_sell self s a now db) =
       (Inr (SellSuccess
              \<lparr>s_trade_id = Suc (trade_seq db), s_symbol = s, s_amount = a, s_price = p,
                s_gross_proceeds = a * p,
                s_fee = a * p * fee_percent self,
                s_net_proceeds = a * p - a * p * fee_percent self,
                s_pnl = (a * p - a * p * fee_percent self) - a * pos_avg_entry_price pos,
                s_timestamp = now\<rparr>))
     \<and> get_cash_balance (snd (market_sell self s a now db)) = get_cash_balance db + (a * p - a * p * fee_percent self)
     \<and> get_position s (snd (market_sell self s a now db)) =
          (if pos_amount pos - a \<le> 1 / 1000000 then None
           else Some \<lparr>pos_symbol = s, pos_amount = pos_amount pos - a,
                       pos_avg_entry_price = pos_avg_entry_price pos\<rparr>)"
  using assms
  by (auto simp: market_sell_def Let_def calculate_fee_def case_prod_unfold)

theorem market_sell_success_witness:
  "fst (market_sell scenario_account ''BTC/USD'' (1 / 100) 2 holding_db) =
     Inr (SellSuccess
           \<lparr>s_trade_id = 2, s_symbol = ''BTC/USD'', s_amount = 1 / 100, s_price = 50000,
             s_gross_proceeds = 500, s_fee = 1 / 2, s_net_proceeds = 999 / 2,
             s_pnl = - (1 / 2), s_timestamp = 2\<rparr>)
   \<and> get_cash_balance (snd (market_sell scenario_account ''BTC/USD'' (1 / 100) 2 holding_db))
       = 18997 / 2
   \<and> get_position ''BTC/USD'' (snd (market_sell scenario_account ''BTC/USD'' (1 / 100) 2 holding_db))
       = Some \<lparr>pos_symbol = ''BTC/USD'', pos_amount = 1 / 100, pos_avg_entry_price = 50000\<rparr>"
  using market_sell_success
          [where a = "1 / 100" and s = "''BTC/USD''" and db = holding_db
             and pos = "\<lparr>pos_symbol = ''BTC/USD'', pos_amount = 1 / 50,
                          pos_avg_entry_price = 50000\<rparr>"
             and p = 50000 and self = scenario_account and now = 2]
  by simp

section \<open>Runs of buys\<close>

lemma held_ohlcv_update [simp]:
  "held_amount s (db\<lparr>ohlcv := cs\<rparr>) = held_amount s db"
  "held_cost s (db\<lparr>ohlcv := cs\<rparr>) = held_cost s db"
  "held_positive s (db\<lparr>ohlcv := cs\<rparr>) = held_positive s db"
  by (simp_all add: held_amount_def held_cost_def held_positive_def)

lemma market_buy_position:
  assumes ok: "fst (market_buy self s q now db) = Inr (BuySuccess r)"
    and price: "get_latest_price s db = Some p" and pos: "0 < p"
    and held: "held_positive s db"
  shows "get_position s (snd (market_buy self s q now db)) =
           Some \<lparr>pos_symbol = s, pos_amount = held_amount s db + q / p,
                  pos_avg_entry_price = (held_cost s db + q) / (held_amount s db + q / p)\<rparr>"
proof (cases "get_position s db")
  case None
  have q: "0 < q" and af: "can_afford self q db"
    using market_buy_success_cond [OF ok] by simp_all
  have "q / (q / p) = p" using q pos by simp
  with market_buy_new(3) [OF q price pos af None, of now] None
  show ?thesis by (simp add: held_amount_def held_cost_def)
next
  case (Some old)
  have q: "0 < q" and af: "can_afford self q db"
    using market_buy_success_cond [OF ok] by simp_all
  have "0 < pos_amount old" using held Some by (simp add: held_positive_def)
  from market_buy_existing(3) [OF q price pos af Some this, of now] Some
  show ?thesis by (simp add: held_amount_def held_cost_def)
qed

lemma held_after_position:
  assumes "get_position s db = Some \<lparr>pos_symbol = s, pos_amount = a, pos_avg_entry_price = c / a\<rparr>"
    and "0 < a"
  shows "held_amount s db = a" and "held_cost s db = c" and "held_positive s db"
  using assms by (simp_all add: held_amount_def held_cost_def held_positive_def)

lemma held_amount_nonneg: "held_positive s db \<Longrightarrow> 0 \<le> held_amount s db"
  by (auto simp: held_positive_def held_amount_def split: option.splits)

lemma buy_all_position:
  assumes "buy_all self s steps db = Some db'" and "steps \<noteq> []"
    and "prices_positive s steps" and "held_positive s db"
  shows "get_position s db' =
           Some \<lparr>pos_symbol = s, pos_amount = held_amount s db + acquired s steps,
                  pos_avg_entry_price =
                    (held_cost s db + spent steps) / (held_amount s db + acquired s steps)\<rparr>"
  using assms
proof (induction steps arbitrary: db)
  case Nil
  then show ?case by simp
next
  case (Cons st steps)
  let ?q = "fst (snd st)" and ?now = "snd (snd st)" and ?db0 = "db\<lparr>ohlcv := fst st\<rparr>"
  let ?r = "market_buy self s ?q ?now ?db0"
  from Cons.prems(1) obtain receipt where ok: "fst ?r = Inr (BuySuccess receipt)"
    and rest: "buy_all self s steps (snd ?r) = Some db'"
    by (auto simp: Let_def split: sum.splits trade_result.splits)
  from market_buy_success_cond [OF ok] obtain p where
    q: "0 < ?q" and price: "get_latest_price s ?db0 = Some p" by auto
  from price have sp: "step_price s st = p"
    by (auto simp: step_price_def split: option.splits)
  from Cons.prems(3) sp have p: "0 < p" by (simp add: prices_positive_def)
  let ?a = "held_amount s db + ?q / p" and ?c = "held_cost s db + ?q"
  have held0: "held_positive s ?db0" using Cons.prems(4) by simp
  have a: "0 < ?a"
    using held_amount_nonneg [OF Cons.prems(4)] q p by (simp add: add_nonneg_pos)
  have pos1: "get_position s (snd ?r) =
      Some \<lparr>pos_symbol = s, pos_amount = ?a, pos_avg_entry_price = ?c / ?a\<rparr>"
    using market_buy_position [OF ok price p held0] by simp
  show ?case
  proof (cases "steps = []")
    case True
    with rest pos1 sp show ?thesis by (simp add: acquired_def spent_def)
  next
    case False
    have pp: "prices_positive s steps" using Cons.prems(3) by (simp add: prices_positive_def)
    from Cons.IH [OF rest False pp held_after_position(3) [OF pos1 a]]
    show ?thesis
      by (simp add: held_after_position(1,2) [OF pos1 a] acquired_def spent_def sp add.assoc)
  qed
qed

text \<open>
  C2, as the code has it: after a run of successful buys of one symbol at positive
  prices, the position holds the amount held before plus the amount acquired, and its
  average entry price is the cost held before plus the quote amount spent, divided by
  that amount: the total quote amount paid per unit of base amount held. A single buy
  is the run of length one: the new average is \<open>(old_amount * old_avg + quote) / (old_amount + quote / price)\<close>.
  Any other successful run from the same ledger that spends the same total and acquires
  the same amount ends with the same position, however the spend is split.
\<close>

theorem buys_weighted_average:
  assumes "buy_all self s steps db = Some db'" and "steps \<noteq> []"
    and "prices_positive s steps" and "held_positive s db"
  shows "get_position s db' =
           Some \<lparr>pos_symbol = s, pos_amount = held_amount s db + acquired s steps,
                  pos_avg_entry_price =
                    (held_cost s db + spent steps) / (held_amount s db + acquired s steps)\<rparr>
         \<and> (\<forall>steps2 db2.
               buy_all self s steps2 db = Some db2 \<and> steps2 \<noteq> [] \<and> prices_positive s steps2
               \<and> spent steps2 = spent steps \<and> acquired s steps2 = acquired s steps
               \<longrightarrow> get_position s db2 = get_position s db')"
proof -
  have one: "get_position s db' =
           Some \<lparr>pos_symbol = s, pos_amount = held_amount s db + acquired s steps,
                  pos_avg_entry_price =
                    (held_cost s db + spent steps) / (held_amount s db + acquired s steps)\<rparr>"
    using assms by (rule buy_all_position)
  have "get_position s db2 = get_position s db'"
    if "buy_all self s steps2 db = Some db2" and "steps2 \<noteq> []"
      and "prices_positive s steps2" and "spent steps2 = spent steps"
      and "acquired s steps2 = acquired s steps" for steps2 db2
    using buy_all_position [OF that(1) that(2) that(3) assms(4)] one that(4,5) by simp
  with one show ?thesis by blast
qed

lemma two_buys_run: "\<exists>db'. buy_all scenario_account ''BTC/USD'' two_buys scenario_db = Some db'"
  by (simp add: ledger_defs scenario_db_eq two_buys_def candles_50000_def candles_40000_def)

lemma three_buys_run: "\<exists>db'. buy_all scenario_account ''BTC/USD'' three_buys scenario_db = Some db'"
  by (simp add: ledger_defs scenario_db_eq three_buys_def candles_50000_def candles_40000_def)

lemma runs_quantities:
  "spent two_buys = 2000" "spent three_buys = 2000"
  "acquired ''BTC/USD'' two_buys = 9 / 200" "acquired ''BTC/USD'' three_buys = 9 / 200"
  "prices_positive ''BTC/USD'' two_buys" "prices_positive ''BTC/USD'' three_buys"
  "two_buys \<noteq> []" "three_buys \<noteq> []"
  by (simp_all add: spent_def acquired_def prices_positive_def step_price_def two_buys_def
        three_buys_def candles_50000_def candles_40000_def)

lemma held_scenario_db:
  "held_positive s scenario_db" "held_amount s scenario_db = 0" "held_cost s scenario_db = 0"
  by (simp_all add: held_positive_def held_amount_def held_cost_def)

theorem buys_weighted_average_witness:
  "get_position ''BTC/USD'' (the (buy_all scenario_account ''BTC/USD'' two_buys scenario_db)) =
     Some \<lparr>pos_symbol = ''BTC/USD'', pos_amount = 9 / 200, pos_avg_entry_price = 400000 / 9\<rparr>
   \<and> get_position ''BTC/USD'' (the (buy_all scenario_account ''BTC/USD'' three_buys scenario_db)) =
     get_position ''BTC/USD'' (the (buy_all scenario_account ''BTC/USD'' two_buys scenario_db))"
proof -
  obtain db2 where two: "buy_all scenario_account ''BTC/USD'' two_buys scenario_db = Some db2"
    using two_buys_run by blast
  obtain db3 where three: "buy_all scenario_account ''BTC/USD'' three_buys scenario_db = Some db3"
    using three_buys_run by blast
  from buys_weighted_average [OF two runs_quantities(7) runs_quantities(5) held_scenario_db(1)]
  show ?thesis
    using two three runs_quantities held_scenario_db by simp
qed

text \<open>
  C2 as stated fails when the prices differ: after 1,000 at 50,000 and 1,000 at 40,000
  the average entry price is \<open>2000 / (1 / 50 + 1 / 40) = 400000 / 9\<close>, while the
  quote-amount-weighted average of the two entry prices is 45,000.
\<close>

theorem buys_weighted_average_counterexample:
  "get_position ''BTC/USD'' (the (buy_all scenario_account ''BTC/USD'' two_buys scenario_db)) =
     Some \<lparr>pos_symbol = ''BTC/USD'', pos_amount = 9 / 200, pos_avg_entry_price = 400000 / 9\<rparr>
   \<and> quote_weighted_average ''BTC/USD'' two_buys = 45000
   \<and> pos_avg_entry_price
         (the (get_position ''BTC/USD''
                 (the (buy_all scenario_account ''BTC/USD'' two_buys scenario_db))))
       \<noteq> quote_weighted_average ''BTC/USD'' two_buys"
proof -
  obtain db2 where two: "buy_all scenario_account ''BTC/USD'' two_buys scenario_db = Some db2"
    using two_buys_run by blast
  have avg: "quote_weighted_average ''BTC/USD'' two_buys = 45000"
    by (simp add: quote_weighted_average_def spent_def step_price_def two_buys_def
          candles_50000_def candles_40000_def)
  from buy_all_position [OF two runs_quantities(7) runs_quantities(5) held_scenario_db(1)]
  show ?thesis
    using two avg runs_quantities held_scenario_db by simp
qed

section \<open>The round trip\<close>

text \<open>
  C4, as the code has it: with no position held before, buying \<open>X > 0\<close> of quote
  currency at a positive price \<open>p\<close> and selling the \<open>X / p\<close> units at once at the same
  price succeeds twice, each time with the fee \<open>X * fee_percent\<close>; the sell has gross
  proceeds \<open>X\<close>, net proceeds \<open>X\<close> minus the sell fee and realized PnL minus the sell
  fee; the position is removed; and the cash balance after the round trip is the balance
  before minus the buy fee minus the sell fee.
\<close>

theorem round_trip:
  assumes "0 < X" and "get_latest_price s db = Some p" and "0 < p"
    and "can_afford self X db" and "get_position s db = None"
  shows "fst (market_buy self s X t1 db) =
           Inr (BuySuccess \<lparr>b_trade_id = Suc (trade_seq db), b_symbol = s, b_amount = X / p,
                  b_price = p, b_cost = X, b_fee = X * fee_percent self,
                  b_total_cost = X + X * fee_percent self, b_timestamp = t1\<rparr>)
    \<and> fst (market_sell self s (X / p) t2 (snd (market_buy self s X t1 db))) =
           Inr (SellSuccess \<lparr>s_trade_id = Suc (Suc (trade_seq db)), s_symbol = s,
                  s_amount = X / p, s_price = p, s_gross_proceeds = X,
                  s_fee = X * fee_percent self,
                  s_net_proceeds = X - X * fee_percent self,
                  s_pnl = - (X * fee_percent self), s_timestamp = t2\<rparr>)
    \<and> get_position s (snd (market_sell self s (X / p) t2 (snd (market_buy self s X t1 db)))) = None
    \<and> get_cash_balance (snd (market_sell self s (X / p) t2 (snd (market_buy self s X t1 db))))
        = get_cash_balance db - X * fee_percent self - X * fee_percent self"
proof -
  let ?db1 = "snd (market_buy self s X t1 db)"
  have buy: "fst (market_buy self s X t1 db) =
           Inr (BuySuccess \<lparr>b_trade_id = Suc (trade_seq db), b_symbol = s, b_amount = X / p,
                  b_price = p, b_cost = X, b_fee = X * fee_percent self,
                  b_total_cost = X + X * fee_percent self, b_timestamp = t1\<rparr>)"
    and cash1: "get_cash_balance ?db1 = get_cash_balance db - (X + X * fee_percent self)"
    and pos1: "get_position s ?db1 =
                 Some \<lparr>pos_symbol = s, pos_amount = X / p, pos_avg_entry_price = p\<rparr>"
    using market_buy_new [OF assms, of t1] by simp_all
  have seq1: "trade_seq ?db1 = Suc (trade_seq db)"
    using trade_seq_market_buy [OF buy] .
  have amt: "0 < X / p" using assms(1,3) by simp
  have price1: "get_latest_price s ?db1 = Some p" using assms(2) by simp
  have xp: "X / p * p = X" using assms(3) by simp
  from market_sell_success [OF amt pos1 _ price1, of self t2] buy cash1 seq1 xp
  show ?thesis by simp
qed

theorem round_trip_witness:
  "fst (market_buy scenario_account ''BTC/USD'' 1000 1 scenario_db) =
     Inr (BuySuccess \<lparr>b_trade_id = 1, b_symbol = ''BTC/USD'', b_amount = 1 / 50,
            b_price = 50000, b_cost = 1000, b_fee = 1, b_total_cost = 1001, b_timestamp = 1\<rparr>)
   \<and> fst (market_sell scenario_account ''BTC/USD'' (1 / 50) 2 holding_db) =
     Inr (SellSuccess \<lparr>s_trade_id = 2, s_symbol = ''BTC/USD'', s_amount = 1 / 50,
            s_price = 50000, s_gross_proceeds = 1000, s_fee = 1, s_net_proceeds = 999,
            s_pnl = - 1, s_timestamp = 2\<rparr>)
   \<and> get_position ''BTC/USD'' (snd (market_sell scenario_account ''BTC/USD'' (1 / 50) 2 holding_db))
       = None
   \<and> get_cash_balance (snd (market_sell scenario_account ''BTC/USD'' (1 / 50) 2 holding_db)) = 9998"
  using round_trip [where X = 1000 and s = "''BTC/USD''" and db = scenario_db and p = 50000
                      and self = scenario_account and ?t1.0 = 1 and ?t2.0 = 2]
  by (simp add: holding_db_def)

text \<open>
  C4 as stated fails in the scenario of the specification: the buy of 1,000 and the sell
  of the 0.02 units each pay the fee 1, and the sell returns net proceeds 999 and PnL -1,
  not \<open>1000 - 1 - 1\<close> and \<open>- 1 - 1\<close>.
\<close>

theorem round_trip_counterexample:
  "fst (market_buy scenario_account ''BTC/USD'' 1000 1 scenario_db) =
     Inr (BuySuccess \<lparr>b_trade_id = 1, b_symbol = ''BTC/USD'', b_amount = 1 / 50,
            b_price = 50000, b_cost = 1000, b_fee = 1, b_total_cost = 1001, b_timestamp = 1\<rparr>)
   \<and> fst (market_sell scenario_account ''BTC/USD'' (1 / 50) 2
            (snd (market_buy scenario_account ''BTC/USD'' 1000 1 scenario_db))) =
     Inr (SellSuccess \<lparr>s_trade_id = 2, s_symbol = ''BTC/USD'', s_amount = 1 / 50,
            s_price = 50000, s_gross_proceeds = 1000, s_fee = 1, s_net_proceeds = 999,
            s_pnl = - 1, s_timestamp = 2\<rparr>)
   \<and> (999 :: real) \<noteq> 1000 - 1 - 1
   \<and> (- 1 :: real) \<noteq> - 1 - 1"
  by (simp add: ledger_defs scenario_db_eq)

section \<open>Closing positions\<close>

lemma database_update_position_positive:
  "\<forall>q \<in> set (positions db). 0 < pos_amount q
   \<Longrightarrow> \<forall>q \<in> set (positions (database_update_position s a p db)). 0 < pos_amount q"
  by (auto simp: database_update_position_def)

text \<open>
  C6, as the code has it: \<open>update_position\<close>, of the account and of the database,
  deletes the position of the symbol when the new amount is at most 0 and otherwise
  replaces it by the new amount and average price; the positions of the other symbols
  stay; and when every stored amount is positive before the call, every stored amount is
  positive after it. The threshold \<open>0.000001\<close> is applied by \<open>market_sell\<close> to the
  remainder (C3), not by \<open>update_position\<close>.
\<close>

theorem update_position_deletes_or_upserts:
  "get_position s (update_position s a p now db) =
     (if a \<le> 0 then None
      else Some \<lparr>pos_symbol = s, pos_amount = a, pos_avg_entry_price = p\<rparr>)
   \<and> database_get_position s (database_update_position s a p db) =
     (if a \<le> 0 then None
      else Some \<lparr>pos_symbol = s, pos_amount = a, pos_avg_entry_price = p\<rparr>)
   \<and> (\<forall>s'. s' \<noteq> s \<longrightarrow> get_position s' (update_position s a p now db) = get_position s' db)
   \<and> ((\<forall>q \<in> set (positions db). 0 < pos_amount q)
        \<longrightarrow> (\<forall>q \<in> set (positions (update_position s a p now db)). 0 < pos_amount q))"
proof -
  have one: "get_position s (update_position s a p now db) =
     (if a \<le> 0 then None
      else Some \<lparr>pos_symbol = s, pos_amount = a, pos_avg_entry_price = p\<rparr>)"
    by (rule get_position_update_position_same)
  have two: "database_get_position s (database_update_position s a p db) =
     (if a \<le> 0 then None
      else Some \<lparr>pos_symbol = s, pos_amount = a, pos_avg_entry_price = p\<rparr>)"
    using get_position_database_update_position_same [of s a p db]
    unfolding get_position_def .
  have three: "\<forall>s'. s' \<noteq> s \<longrightarrow>
      get_position s' (update_position s a p now db) = get_position s' db"
    by (simp add: get_position_update_position_other)
  have four: "(\<forall>q \<in> set (positions db). 0 < pos_amount q)
        \<longrightarrow> (\<forall>q \<in> set (positions (update_position s a p now db)). 0 < pos_amount q)"
    using database_update_position_positive [of db s a p]
    unfolding positions_update_position by blast
  from one two three four show ?thesis by (intro conjI)
qed

theorem update_position_witness:
  "get_position ''BTC/USD'' (update_position ''BTC/USD'' 0 0 3 holding_db) = None
   \<and> get_position ''BTC/USD'' (update_position ''ETH/USD'' 2 3000 3 holding_db) =
       Some \<lparr>pos_symbol = ''BTC/USD'', pos_amount = 1 / 50, pos_avg_entry_price = 50000\<rparr>
   \<and> get_position ''ETH/USD'' (update_position ''ETH/USD'' 2 3000 3 holding_db) =
       Some \<lparr>pos_symbol = ''ETH/USD'', pos_amount = 2, pos_avg_entry_price = 3000\<rparr>
   \<and> list_all (\<lambda>q. 0 < pos_amount q)
        (positions (update_position ''ETH/USD'' 2 3000 3 holding_db))"
proof -
  note close = update_position_deletes_or_upserts [of "''BTC/USD''" 0 0 3 holding_db]
  note other = update_position_deletes_or_upserts [of "''ETH/USD''" 2 3000 3 holding_db]
  have c1: "get_position ''BTC/USD'' (update_position ''BTC/USD'' 0 0 3 holding_db) = None"
    using close [THEN conjunct1] by simp
  have c2: "get_position ''BTC/USD'' (update_position ''ETH/USD'' 2 3000 3 holding_db) =
       Some \<lparr>pos_symbol = ''BTC/USD'', pos_amount = 1 / 50, pos_avg_entry_price = 50000\<rparr>"
    using other [THEN conjunct2, THEN conjunct2, THEN conjunct1, rule_format, of "''BTC/USD''"]
    by simp
  have c3: "get_position ''ETH/USD'' (update_position ''ETH/USD'' 2 3000 3 holding_db) =
       Some \<lparr>pos_symbol = ''ETH/USD'', pos_amount = 2, pos_avg_entry_price = 3000\<rparr>"
    using other [THEN conjunct1] by simp
  have pos: "\<forall>q \<in> set (positions holding_db). 0 < pos_amount q"
    by (simp add: positions_holding_db)
  have c4: "list_all (\<lambda>q. 0 < pos_amount q)
              (positions (update_position ''ETH/USD'' 2 3000 3 holding_db))"
    using other [THEN conjunct2, THEN conjunct2, THEN conjunct2] pos
    unfolding list_all_iff by blast
  from c1 c2 c3 c4 show ?thesis by (intro conjI)
qed

text \<open>
  C6 as stated fails: \<open>update_position\<close> with the amount \<open>0.0000005\<close>, which is positive
  and at most \<open>0.000001\<close>, stores the position.
\<close>

theorem update_position_counterexample:
  "get_position ''BTC/USD'' (update_position ''BTC/USD'' (1 / 2000000) 50000 3 scenario_db) =
     Some \<lparr>pos_symbol = ''BTC/USD'', pos_amount = 1 / 2000000, pos_avg_entry_price = 50000\<rparr>
   \<and> (0 :: real) < 1 / 2000000 \<and> (1 / 2000000 :: real) \<le> 1 / 1000000"
  by simp

section \<open>The cash balance without an account row\<close>

text \<open>
  C7, as the code has it: \<open>get_cash_balance\<close> is a read that always returns a number: 0
  when there is no account row, the stored cash balance otherwise. The account row is
  created by the constructor of the account, and after it the cash balance of a database
  that had no account row is the starting balance of the account.
\<close>

theorem get_cash_balance_no_account:
  "(get_account db = None \<longrightarrow> get_cash_balance db = 0)
   \<and> (\<forall>a. get_account db = Some a \<longrightarrow> get_cash_balance db = cash_balance a)
   \<and> (get_account db = None \<longrightarrow>
        get_cash_balance (snd (PaperAccount_init starting now db))
          = starting_balance (fst (PaperAccount_init starting now db)))"
  by (auto simp: get_cash_balance_def PaperAccount_init_def Let_def initialize_account_def
        update_account_def get_account_def)

theorem get_cash_balance_witness:
  "get_cash_balance market_database = 0
   \<and> get_cash_balance (snd (PaperAccount_init None 0 market_database)) = 10000
   \<and> get_cash_balance holding_db = 8999"
  using get_cash_balance_no_account [of market_database None 0]
    get_cash_balance_no_account [of holding_db None 0]
  by (simp add: get_account_def market_database_def empty_database_def PaperAccount_init_def
        py_or_def STARTING_BALANCE_USDT_def)

text \<open>
  C7 as stated fails on a database without an account row: the result is 0, not the
  starting balance 10,000.
\<close>

theorem get_cash_balance_counterexample:
  "get_account market_database = None
   \<and> get_cash_balance market_database = 0
   \<and> get_cash_balance market_database \<noteq> starting_balance scenario_account"
  by (simp add: get_cash_balance_def get_account_def market_database_def empty_database_def)

section \<open>The signal engine\<close>

lemma missing_columns_iff:
  "filter (\<lambda>col. col \<notin> set cols) required \<noteq> [] \<longleftrightarrow>
     ''close'' \<notin> set cols \<or> ''rsi'' \<notin> set cols \<or> ''ema_fast'' \<notin> set cols
     \<or> ''ema_slow'' \<notin> set cols"
  by (auto simp: required_def)

lemma analyze_soft_failure:
  assumes "length (df_rows df) < 3
     \<or> ''close'' \<notin> set (df_columns df) \<or> ''rsi'' \<notin> set (df_columns df)
     \<or> ''ema_fast'' \<notin> set (df_columns df) \<or> ''ema_slow'' \<notin> set (df_columns df)
     \<or> last (df_rows df) ''rsi'' = None \<or> last (df_rows df) ''ema_fast'' = None
     \<or> last (df_rows df) ''ema_slow'' = None"
  shows "signal (fst (analyze self df pos)) = HOLD"
    and "confidence (fst (analyze self df pos)) = 0"
    and "snd (analyze self df pos) = self"
  using assms
  by (auto simp: analyze_def Let_def missing_columns_iff simp del: filter.simps
           split: option.splits)

lemma analyze_proceeds:
  assumes "3 \<le> length (df_rows df)"
    and "''close'' \<in> set (df_columns df)" and "''rsi'' \<in> set (df_columns df)"
    and "''ema_fast'' \<in> set (df_columns df)" and "''ema_slow'' \<in> set (df_columns df)"
    and "last (df_rows df) ''rsi'' = Some r"
    and "last (df_rows df) ''ema_fast'' = Some cf"
    and "last (df_rows df) ''ema_slow'' = Some cs"
  shows "analyze self df pos =
           analyze_values self pos r cf cs
             ((df_rows df ! (length (df_rows df) - 2)) ''ema_fast'')
             ((df_rows df ! (length (df_rows df) - 2)) ''ema_slow'')
             (last (df_rows df) ''close'')"
  using assms
  by (simp add: analyze_def Let_def missing_columns_iff del: filter.simps)

lemma analyze_values_confidence:
  "50 \<le> confidence (fst (analyze_values self pos r cf cs pf ps cl))"
  by (simp add: analyze_values_def Let_def)

lemma analyze_values_last_crossover:
  "last_crossover (snd (analyze_values self pos r cf cs pf ps cl)) =
     (if \<not> cell_gt pf ps \<and> cs < cf then Some Bullish
      else if cell_gt pf ps \<and> \<not> cs < cf then Some Bearish
      else last_crossover self)"
  by (simp add: analyze_values_def Let_def)

lemma cell_gt_Some [simp]: "cell_gt (Some x) (Some y) \<longleftrightarrow> y < x"
  by (simp add: cell_gt_def)

lemma frame_simps [simp]:
  "df_columns tie_frame = [''close'', ''rsi'', ''ema_fast'', ''ema_slow'']"
  "df_columns crossing_frame = [''close'', ''rsi'', ''ema_fast'', ''ema_slow'']"
  "df_columns warmup_frame = [''close'', ''rsi'', ''ema_fast'', ''ema_slow'']"
  "length (df_rows tie_frame) = 3" "length (df_rows crossing_frame) = 3"
  "length (df_rows warmup_frame) = 3"
  "last (df_rows tie_frame) = indicator_row (Some 100) (Some 60) (Some 99) (Some 100)"
  "df_rows tie_frame ! Suc 0 = indicator_row (Some 100) (Some 60) (Some 100) (Some 100)"
  "last (df_rows crossing_frame) = indicator_row (Some 100) (Some 60) (Some 99) (Some 100)"
  "df_rows crossing_frame ! Suc 0 = indicator_row (Some 100) (Some 60) (Some 101) (Some 100)"
  "last (df_rows warmup_frame) = indicator_row (Some 102) (Some 55) (Some 102) (Some 101)"
  "df_rows warmup_frame ! Suc 0 = indicator_row (Some 101) None (Some 101) (Some 100)"
  by (simp_all add: tie_frame_def crossing_frame_def warmup_frame_def)

lemma indicator_row_simps [simp]:
  "indicator_row c r f s ''close'' = c" "indicator_row c r f s ''rsi'' = r"
  "indicator_row c r f s ''ema_fast'' = f" "indicator_row c r f s ''ema_slow'' = s"
  by (simp_all add: indicator_row_def)

lemma default_strategy [simp]:
  "rsi_oversold (RsiEmaStrategy_init None None) = 30"
  "rsi_overbought (RsiEmaStrategy_init None None) = 70"
  "last_crossover (RsiEmaStrategy_init a b) = None"
  by (simp_all add: RsiEmaStrategy_init_def py_or_def RSI_OVERSOLD_def RSI_OVERBOUGHT_def)

text \<open>
  C8, as the code has it: on a frame that passes the checks and whose previous row has
  both averages, \<open>analyze\<close> detects a bullish crossover exactly when
  \<open>prev_fast \<le> prev_slow\<close> and \<open>curr_fast > curr_slow\<close>, and a bearish crossover exactly
  when \<open>prev_fast > prev_slow\<close> and \<open>curr_fast \<le> curr_slow\<close>; a detection overwrites
  \<open>last_crossover\<close>, and without a detection \<open>last_crossover\<close> keeps its value.
\<close>

theorem crossover_detection:
  assumes "3 \<le> length (df_rows df)"
    and "''close'' \<in> set (df_columns df)" and "''rsi'' \<in> set (df_columns df)"
    and "''ema_fast'' \<in> set (df_columns df)" and "''ema_slow'' \<in> set (df_columns df)"
    and "last (df_rows df) ''rsi'' = Some r"
    and "last (df_rows df) ''ema_fast'' = Some curr_fast"
    and "last (df_rows df) ''ema_slow'' = Some curr_slow"
    and "(df_rows df ! (length (df_rows df) - 2)) ''ema_fast'' = Some prev_fast"
    and "(df_rows df ! (length (df_rows df) - 2)) ''ema_slow'' = Some prev_slow"
  shows "last_crossover (snd (analyze self df pos)) =
           (if prev_fast \<le> prev_slow \<and> curr_slow < curr_fast then Some Bullish
            else if prev_slow < prev_fast \<and> curr_fast \<le> curr_slow then Some Bearish
            else last_crossover self)"
  using analyze_proceeds [OF assms(1-8), of self pos] assms(9,10)
  by (simp add: analyze_values_last_crossover not_less)

theorem crossover_detection_witness:
  "last_crossover (snd (analyze (RsiEmaStrategy_init None None) crossing_frame None))
     = Some Bearish"
  using crossover_detection [where df = crossing_frame and r = 60 and curr_fast = 99
          and curr_slow = 100 and prev_fast = 101 and prev_slow = 100
          and self = "RsiEmaStrategy_init None None" and pos = None]
  by (simp add: numeral_3_eq_3 numeral_2_eq_2)

text \<open>
  C8 as stated fails when the averages are equal in the previous row and the fast one is
  below the slow one in the latest row: \<open>prev_fast \<ge> prev_slow\<close> and
  \<open>curr_fast < curr_slow\<close> hold, but no bearish crossover is detected: \<open>last_crossover\<close>
  stays empty, and with a position held and an RSI of 60 the signal is HOLD.
\<close>

theorem crossover_detection_counterexample:
  "(df_rows tie_frame ! 1) ''ema_slow'' = Some 100
   \<and> (df_rows tie_frame ! 1) ''ema_fast'' = Some 100
   \<and> last (df_rows tie_frame) ''ema_slow'' = Some 100
   \<and> last (df_rows tie_frame) ''ema_fast'' = Some 99
   \<and> (100 :: real) \<ge> 100 \<and> (99 :: real) < 100
   \<and> last_crossover (snd (analyze (RsiEmaStrategy_init None None) tie_frame
                              (Some held_position))) = None
   \<and> signal (fst (analyze (RsiEmaStrategy_init None None) tie_frame (Some held_position)))
       = HOLD"
  by (simp add: analyze_def analyze_values_def Let_def required_def numeral_3_eq_3
        numeral_2_eq_2)

text \<open>
  C9, as the code has it: \<open>analyze\<close> returns HOLD with confidence 0, and leaves the
  strategy unchanged, whenever the frame has fewer than 3 rows, or one of the columns
  close, rsi, ema_fast, ema_slow is absent, or the RSI or one of the two averages of the
  latest row is NaN. When the frame has at least 3 rows and the four columns, and the
  RSI and both averages of the latest row and both averages of the previous row are
  numbers, \<open>analyze\<close> does not take that branch: the confidence is at least 50, whatever
  the close prices and the RSI of the previous row are.
\<close>

theorem soft_failure:
  "(length (df_rows df) < 3
      \<or> ''close'' \<notin> set (df_columns df) \<or> ''rsi'' \<notin> set (df_columns df)
      \<or> ''ema_fast'' \<notin> set (df_columns df) \<or> ''ema_slow'' \<notin> set (df_columns df)
      \<or> last (df_rows df) ''rsi'' = None \<or> last (df_rows df) ''ema_fast'' = None
      \<or> last (df_rows df) ''ema_slow'' = None
    \<longrightarrow> signal (fst (analyze self df pos)) = HOLD
        \<and> confidence (fst (analyze self df pos)) = 0
        \<and> snd (analyze self df pos) = self)
   \<and> (3 \<le> length (df_rows df)
      \<and> ''close'' \<in> set (df_columns df) \<and> ''rsi'' \<in> set (df_columns df)
      \<and> ''ema_fast'' \<in> set (df_columns df) \<and> ''ema_slow'' \<in> set (df_columns df)
      \<and> last (df_rows df) ''rsi'' \<noteq> None \<and> last (df_rows df) ''ema_fast'' \<noteq> None
      \<and> last (df_rows df) ''ema_slow'' \<noteq> None
      \<and> (df_rows df ! (length (df_rows df) - 2)) ''ema_fast'' \<noteq> None
      \<and> (df_rows df ! (length (df_rows df) - 2)) ''ema_slow'' \<noteq> None
    \<longrightarrow> 50 \<le> confidence (fst (analyze self df pos)))"
proof (intro conjI impI)
  assume a: "length (df_rows df) < 3
      \<or> ''close'' \<notin> set (df_columns df) \<or> ''rsi'' \<notin> set (df_columns df)
      \<or> ''ema_fast'' \<notin> set (df_columns df) \<or> ''ema_slow'' \<notin> set (df_columns df)
      \<or> last (df_rows df) ''rsi'' = None \<or> last (df_rows df) ''ema_fast'' = None
      \<or> last (df_rows df) ''ema_slow'' = None"
  show "signal (fst (analyze self df pos)) = HOLD"
    by (rule analyze_soft_failure(1) [OF a])
  show "confidence (fst (analyze self df pos)) = 0"
    by (rule analyze_soft_failure(2) [OF a])
  show "snd (analyze self df pos) = self"
    by (rule analyze_soft_failure(3) [OF a])
next
  assume b: "3 \<le> length (df_rows df)
      \<and> ''close'' \<in> set (df_columns df) \<and> ''rsi'' \<in> set (df_columns df)
      \<and> ''ema_fast'' \<in> set (df_columns df) \<and> ''ema_slow'' \<in> set (df_columns df)
      \<and> last (df_rows df) ''rsi'' \<noteq> None \<and> last (df_rows df) ''ema_fast'' \<noteq> None
      \<and> last (df_rows df) ''ema_slow'' \<noteq> None
      \<and> (df_rows df ! (length (df_rows df) - 2)) ''ema_fast'' \<noteq> None
      \<and> (df_rows df ! (length (df_rows df) - 2)) ''ema_slow'' \<noteq> None"
  then obtain r cf cs where v: "last (df_rows df) ''rsi'' = Some r"
    "last (df_rows df) ''ema_fast'' = Some cf" "last (df_rows df) ''ema_slow'' = Some cs"
    by auto
  from b have c: "3 \<le> length (df_rows df)" "''close'' \<in> set (df_columns df)"
    "''rsi'' \<in> set (df_columns df)" "''ema_fast'' \<in> set (df_columns df)"
    "''ema_slow'' \<in> set (df_columns df)"
    by simp_all
  show "50 \<le> confidence (fst (analyze self df pos))"
    unfolding analyze_proceeds [OF c v] by (rule analyze_values_confidence)
qed

theorem soft_failure_witness:
  "signal (fst (analyze (RsiEmaStrategy_init None None)
                  \<lparr>df_columns = [''close'', ''rsi''], df_rows = df_rows crossing_frame\<rparr> None))
     = HOLD
   \<and> confidence (fst (analyze (RsiEmaStrategy_init None None)
                  \<lparr>df_columns = [''close'', ''rsi''], df_rows = df_rows crossing_frame\<rparr> None))
     = 0
   \<and> 50 \<le> confidence (fst (analyze (RsiEmaStrategy_init None None) crossing_frame None))"
  using soft_failure [of "\<lparr>df_columns = [''close'', ''rsi''], df_rows = df_rows crossing_frame\<rparr>"
                         "RsiEmaStrategy_init None None" None]
        soft_failure [of crossing_frame "RsiEmaStrategy_init None None" None]
  by (simp add: numeral_3_eq_3 numeral_2_eq_2)

text \<open>
  C9 as stated fails on a frame whose previous row has no RSI yet: the result is the
  ordinary HOLD with confidence 50.
\<close>

theorem soft_failure_counterexample:
  "length (df_rows warmup_frame) = 3
   \<and> (df_rows warmup_frame ! 1) ''rsi'' = None
   \<and> signal (fst (analyze (RsiEmaStrategy_init None None) warmup_frame None)) = HOLD
   \<and> confidence (fst (analyze (RsiEmaStrategy_init None None) warmup_frame None)) = 50"
  by (simp add: analyze_def analyze_values_def Let_def required_def numeral_3_eq_3
        numeral_2_eq_2)

text \<open>
  C10: a threshold argument of 0 is replaced by the configured default: the strategy
  built with 0 is the strategy built without the argument, its threshold is the
  configured one, and \<open>analyze\<close> gives the same result for both.
\<close>

theorem zero_threshold_replaced:
  "RsiEmaStrategy_init (Some 0) overbought = RsiEmaStrategy_init None overbought
   \<and> RsiEmaStrategy_init oversold (Some 0) = RsiEmaStrategy_init oversold None
   \<and> RsiEmaStrategy_init (Some 0) overbought
       = RsiEmaStrategy_init (Some RSI_OVERSOLD) overbought
   \<and> rsi_oversold (RsiEmaStrategy_init (Some 0) overbought) = RSI_OVERSOLD
   \<and> rsi_overbought (RsiEmaStrategy_init oversold (Some 0)) = RSI_OVERBOUGHT
   \<and> analyze (RsiEmaStrategy_init (Some 0) overbought) df pos
       = analyze (RsiEmaStrategy_init None overbought) df pos
   \<and> analyze (RsiEmaStrategy_init oversold (Some 0)) df pos
       = analyze (RsiEmaStrategy_init oversold None) df pos"
  by (simp add: RsiEmaStrategy_init_def py_or_def)

theorem zero_threshold_witness:
  "rsi_oversold (RsiEmaStrategy_init (Some 0) (Some 80)) = 30
   \<and> rsi_overbought (RsiEmaStrategy_init (Some 20) (Some 0)) = 70
   \<and> analyze (RsiEmaStrategy_init (Some 0) (Some 80)) crossing_frame None
       = analyze (RsiEmaStrategy_init None (Some 80)) crossing_frame None"
  using zero_threshold_replaced [of "Some 80" "Some 20" crossing_frame None]
  unfolding RSI_OVERSOLD_def RSI_OVERBOUGHT_def by blast

end
